theory Spec2Isabelle
  imports Complex_Main
begin

section \<open>Chapter 11, example 6: a nested exception class within a user defined class\<close>

text \<open>
  The development embeds \<^verbatim>\<open>src/Chapter11/Chp11-Ex6.cpp\<close>: the classes \<^verbatim>\<open>Person\<close> and
  \<^verbatim>\<open>Student\<close>, the static counter \<^verbatim>\<open>Student::numStudents\<close>, the nested class
  \<^verbatim>\<open>Student::StudentException\<close>, the functions that throw, the handler sequence of
  \<^verbatim>\<open>main\<close> and the terminate function \<^verbatim>\<open>AppSpecificTerminate\<close>.
\<close>

subsection \<open>Values of the built-in types\<close>

text \<open>
  A \<^verbatim>\<open>float\<close> is one of: a NaN, an infinity, or a finite number. Every finite
  \<^verbatim>\<open>float\<close> is a rational number, so the finite values are embedded in \<^typ>\<open>rat\<close>
  (the two zeros compare equal and are both \<open>FNum 0\<close>). The comparisons are the
  IEEE ones that C++ uses: any comparison with a NaN is false. The promotion of a
  \<^verbatim>\<open>float\<close> to \<^verbatim>\<open>double\<close> is exact, so \<^verbatim>\<open>gpa < 2.0\<close> compares the values.
\<close>

datatype cfloat = NaN | NegInf | FNum rat | PosInf

fun float_less :: "cfloat \<Rightarrow> cfloat \<Rightarrow> bool" where
  "float_less NaN y = False"
| "float_less x NaN = False"
| "float_less NegInf NegInf = False"
| "float_less NegInf y = True"
| "float_less (FNum a) NegInf = False"
| "float_less (FNum a) (FNum b) = (a < b)"
| "float_less (FNum a) PosInf = True"
| "float_less PosInf y = False"

fun float_eq :: "cfloat \<Rightarrow> cfloat \<Rightarrow> bool" where
  "float_eq NaN y = False"
| "float_eq x NaN = False"
| "float_eq NegInf NegInf = True"
| "float_eq (FNum a) (FNum b) = (a = b)"
| "float_eq PosInf PosInf = True"
| "float_eq x y = False"

definition float_ge :: "cfloat \<Rightarrow> cfloat \<Rightarrow> bool" where
  "float_ge x y = (float_less y x \<or> float_eq x y)"

text \<open>
  An \<^verbatim>\<open>int\<close> has 32 bits. Its values are embedded in \<^typ>\<open>int\<close>; an arithmetic
  operation whose result leaves the range is undefined behaviour in C++, which the
  functions below return as \<open>None\<close>.
\<close>

definition INT_MAX :: int where
  "INT_MAX = 2147483647"

definition INT_MIN :: int where
  "INT_MIN = - 2147483648"

definition int_add :: "int \<Rightarrow> int \<Rightarrow> int option" where
  "int_add a b = (if INT_MIN \<le> a + b \<and> a + b \<le> INT_MAX then Some (a + b) else None)"

subsection \<open>The classes\<close>

record Person =
  firstName :: string
  lastName :: string
  middleInitial :: char
  title :: string

record Student = Person +
  gpa :: cfloat
  currentCourse :: string
  studentId :: string

record StudentException =
  number :: int

definition StudentException_ctor :: "int \<Rightarrow> StudentException" where
  "StudentException_ctor num = \<lparr>number = num\<rparr>"

definition GetNum :: "StudentException \<Rightarrow> int" where
  "GetNum e = number e"

subsection \<open>Exceptions, output and the state of the process\<close>

text \<open>
  An exception object is identified by its type, which is what a handler matches on.
  The file throws a \<^verbatim>\<open>float\<close>, a \<^verbatim>\<open>StudentException\<close> and a string literal
  (a \<^verbatim>\<open>const char *\<close> that points at the characters of the literal), and has a
  handler for \<^verbatim>\<open>int\<close>. \<open>ExOther\<close> stands for an exception object of a type
  that none of the four typed handlers of \<^verbatim>\<open>main\<close> accepts, such as a
  \<^verbatim>\<open>double\<close>, a \<^verbatim>\<open>std::string\<close> or an object of an unrelated class.

  Three kinds of exception object that a typed handler accepts through a conversion
  are not values of this type, and nothing in the file throws one: a \<^verbatim>\<open>char *\<close>
  and a null pointer (\<^verbatim>\<open>std::nullptr_t\<close>), which \<^verbatim>\<open>catch (const char *)\<close>
  accepts, and an object of a class publicly derived from \<^verbatim>\<open>StudentException\<close>,
  which \<^verbatim>\<open>catch (const Student::StudentException &)\<close> accepts. In particular
  \<open>ExOther\<close> is none of these.
\<close>

datatype exn =
    ExFloat cfloat
  | ExInt int
  | ExCString string
  | ExStudentException StudentException
  | ExOther

datatype 'a result = Returned 'a | Thrown exn

text \<open>What is inserted into \<^verbatim>\<open>cout\<close>, item by item, in order.\<close>

datatype out_item =
    OStr string
  | OChar char
  | OFloat cfloat
  | OInt int
  | OSetPrecision int
  | OEndl

datatype terminate_fn = DefaultTerminate | AppSpecific

text \<open>
  The state outside of the objects: the static member \<^verbatim>\<open>Student::numStudents\<close>, the
  output written so far, the \<^verbatim>\<open>StudentException\<close> objects allocated with
  \<^verbatim>\<open>new\<close> (nothing in the file deletes one) and the registered terminate function.
\<close>

record proc =
  numStudents :: int
  cout :: "out_item list"
  heap :: "StudentException list"
  terminate_handler :: terminate_fn

definition put :: "out_item list \<Rightarrow> proc \<Rightarrow> proc" where
  "put items p = p\<lparr>cout := cout p @ items\<rparr>"

text \<open>\<^verbatim>\<open>int Student::numStudents = 0;\<close> and an untouched process.\<close>

definition initial_proc :: proc where
  "initial_proc = \<lparr>numStudents = 0, cout = [], heap = [], terminate_handler = DefaultTerminate\<rparr>"

subsection \<open>The library function \<^verbatim>\<open>std::to_string(int)\<close>\<close>

text \<open>
  \<^verbatim>\<open>to_string\<close> writes an \<^verbatim>\<open>int\<close> in decimal, with a minus sign in front of a
  negative number and no leading zeros.
\<close>

definition digit_char :: "nat \<Rightarrow> char" where
  "digit_char d = ''0123456789'' ! d"

fun digits10 :: "nat \<Rightarrow> string" where
  "digits10 n = (if n < 10 then [digit_char n] else digits10 (n div 10) @ [digit_char (n mod 10)])"

declare digits10.simps [simp del]

definition to_string :: "int \<Rightarrow> string" where
  "to_string i = (if i < 0 then CHR ''-'' # digits10 (nat (- i)) else digits10 (nat i))"

subsection \<open>Person\<close>

text \<open>
  \<^verbatim>\<open>Person() = default\<close>: the strings are empty and \<^verbatim>\<open>middleInitial\<close> has its
  in-class initializer \<^verbatim>\<open>'\0'\<close>.
\<close>

definition Person_default_ctor :: Person where
  "Person_default_ctor = \<lparr>firstName = [], lastName = [], middleInitial = CHR 0x00, title = []\<rparr>"

definition Person_ctor :: "string \<Rightarrow> string \<Rightarrow> char \<Rightarrow> string \<Rightarrow> Person" where
  "Person_ctor fname lname mi t = \<lparr>firstName = fname, lastName = lname, middleInitial = mi, title = t\<rparr>"

text \<open>The implicit copy constructor of \<^verbatim>\<open>Person\<close>, applied to the base of any object.\<close>

definition Person_copy_ctor :: "'a Person_scheme \<Rightarrow> Person" where
  "Person_copy_ctor q =
     \<lparr>firstName = firstName q, lastName = lastName q, middleInitial = middleInitial q,
      title = title q\<rparr>"

definition ModifyTitle :: "string \<Rightarrow> 'a Person_scheme \<Rightarrow> 'a Person_scheme" where
  "ModifyTitle newTitle this = this\<lparr>title := newTitle\<rparr>"

definition GetFirstName :: "'a Person_scheme \<Rightarrow> string" where
  "GetFirstName this = firstName this"

definition GetLastName :: "'a Person_scheme \<Rightarrow> string" where
  "GetLastName this = lastName this"

definition GetTitle :: "'a Person_scheme \<Rightarrow> string" where
  "GetTitle this = title this"

definition GetMiddleInitial :: "'a Person_scheme \<Rightarrow> char" where
  "GetMiddleInitial this = middleInitial this"

definition Person_Print :: "'a Person_scheme \<Rightarrow> proc \<Rightarrow> proc" where
  "Person_Print this p =
     put [OStr (title this), OStr '' '', OStr (firstName this), OStr '' '',
          OChar (middleInitial this), OStr ''. '', OStr (lastName this), OEndl] p"

definition Person_IsA :: "'a Person_scheme \<Rightarrow> proc \<Rightarrow> proc" where
  "Person_IsA this p = put [OStr ''Person'', OEndl] p"

definition Greeting :: "string \<Rightarrow> 'a Person_scheme \<Rightarrow> proc \<Rightarrow> proc" where
  "Greeting msg this p = put [OStr msg, OEndl] p"

subsection \<open>Student: construction and destruction\<close>

text \<open>A Student object: its \<^verbatim>\<open>Person\<close> base, then its own data members.\<close>

definition Student_object :: "Person \<Rightarrow> cfloat \<Rightarrow> string \<Rightarrow> string \<Rightarrow> Student" where
  "Student_object base g c i =
     \<lparr>firstName = firstName base, lastName = lastName base,
      middleInitial = middleInitial base, title = title base,
      gpa = g, currentCourse = c, studentId = i\<rparr>"

text \<open>
  \<^verbatim>\<open>Student::Student() : studentId(to_string(numStudents + 100) + "Id") { numStudents++; }\<close>
  The base is default constructed, \<^verbatim>\<open>gpa\<close> has its in-class initializer
  \<^verbatim>\<open>0.0\<close>, \<^verbatim>\<open>currentCourse\<close> is empty. The member initializer reads
  \<^verbatim>\<open>numStudents\<close> before the body increments it.
\<close>

definition Student_default_ctor :: "proc \<Rightarrow> (Student \<times> proc) option" where
  "Student_default_ctor p =
     (case int_add (numStudents p) 100 of
        None \<Rightarrow> None
      | Some n \<Rightarrow>
          let this = Student_object Person_default_ctor (FNum 0) [] (to_string n @ ''Id'')
          in (case int_add (numStudents p) 1 of
                None \<Rightarrow> None
              | Some k \<Rightarrow> Some (this, p\<lparr>numStudents := k\<rparr>)))"

definition Student_ctor ::
  "string \<Rightarrow> string \<Rightarrow> char \<Rightarrow> string \<Rightarrow> cfloat \<Rightarrow> string \<Rightarrow> string \<Rightarrow> proc
     \<Rightarrow> (Student \<times> proc) option" where
  "Student_ctor fname lname mi t avg course ident p =
     (let this = Student_object (Person_ctor fname lname mi t) avg course ident
      in (case int_add (numStudents p) 1 of
            None \<Rightarrow> None
          | Some k \<Rightarrow> Some (this, p\<lparr>numStudents := k\<rparr>)))"

definition Student_copy_ctor :: "Student \<Rightarrow> proc \<Rightarrow> (Student \<times> proc) option" where
  "Student_copy_ctor s p =
     (let this = Student_object (Person_copy_ctor s) (gpa s) (currentCourse s) (studentId s)
      in (case int_add (numStudents p) 1 of
            None \<Rightarrow> None
          | Some k \<Rightarrow> Some (this, p\<lparr>numStudents := k\<rparr>)))"

text \<open>\<^verbatim>\<open>Student::~Student() { numStudents--; }\<close>\<close>

definition Student_dtor :: "Student \<Rightarrow> proc \<Rightarrow> proc option" where
  "Student_dtor this p =
     (case int_add (numStudents p) (- 1) of
        None \<Rightarrow> None
      | Some k \<Rightarrow> Some (p\<lparr>numStudents := k\<rparr>))"

definition GetNumberStudents :: "proc \<Rightarrow> int" where
  "GetNumberStudents p = numStudents p"

subsection \<open>Student: the other member functions\<close>

definition GetGpa :: "Student \<Rightarrow> cfloat" where
  "GetGpa this = gpa this"

definition GetCurrentCourse :: "Student \<Rightarrow> string" where
  "GetCurrentCourse this = currentCourse this"

definition GetStudentId :: "Student \<Rightarrow> string" where
  "GetStudentId this = studentId this"

definition SetCurrentCourse :: "string \<Rightarrow> Student \<Rightarrow> Student" where
  "SetCurrentCourse c this = this\<lparr>currentCourse := c\<rparr>"

definition EarnPhD :: "Student \<Rightarrow> Student" where
  "EarnPhD this = ModifyTitle ''Dr.'' this"

definition Student_Print :: "Student \<Rightarrow> proc \<Rightarrow> proc" where
  "Student_Print this p =
     put [OStr (GetTitle this), OStr '' '', OStr (GetFirstName this), OStr '' '',
          OChar (GetMiddleInitial this), OStr ''. '', OStr (GetLastName this),
          OStr '' with id: '', OStr (studentId this), OStr '' GPA: '',
          OSetPrecision 3, OStr '' '', OFloat (gpa this),
          OStr '' Course: '', OStr (currentCourse this), OEndl] p"

definition Student_IsA :: "Student \<Rightarrow> proc \<Rightarrow> proc" where
  "Student_IsA this p = put [OStr ''Student'', OEndl] p"

text \<open>
  The member functions that may complete by a \<^verbatim>\<open>throw\<close> take the object and the
  process state and give back how they completed, the object and the process state.
\<close>

definition Validate :: "Student \<Rightarrow> proc \<Rightarrow> unit result \<times> Student \<times> proc" where
  "Validate this p = (Thrown (ExCString ''Student does not meet prerequisites''), this, p)"

definition TakePrerequisites :: "Student \<Rightarrow> proc \<Rightarrow> bool result \<times> Student \<times> proc" where
  "TakePrerequisites this p = (Returned False, this, p)"

text \<open>
  \<^verbatim>\<open>if (gpa < 2.0) throw gpa;\<close> and then \<^verbatim>\<open>throw *(new StudentException(5));\<close>:
  the object made by \<^verbatim>\<open>new\<close> stays on the heap, and a copy of it is thrown.
  (The allocation is taken to succeed.)
\<close>

definition Graduate :: "Student \<Rightarrow> proc \<Rightarrow> unit result \<times> Student \<times> proc" where
  "Graduate this p =
     (if float_less (gpa this) (FNum 2) then (Thrown (ExFloat (gpa this)), this, p)
      else
        let e = StudentException_ctor 5;
            p' = p\<lparr>heap := heap p @ [e]\<rparr>
        in (Thrown (ExStudentException e), this, p'))"

subsection \<open>Calls of the public member functions\<close>

text \<open>
  What a caller can do with a Student object between its construction and its
  destruction: call one of its public member functions, inherited ones included.
  (\<^verbatim>\<open>ModifyTitle\<close> is protected, and a Student has no assignment operator, since
  \<^verbatim>\<open>studentId\<close> is a \<^verbatim>\<open>const\<close> member.)
\<close>

datatype member_call =
    Call_GetFirstName
  | Call_GetLastName
  | Call_GetTitle
  | Call_GetMiddleInitial
  | Call_Greeting string
  | Call_EarnPhD
  | Call_TakePrerequisites
  | Call_GetGpa
  | Call_GetCurrentCourse
  | Call_GetStudentId
  | Call_SetCurrentCourse string
  | Call_Print
  | Call_IsA
  | Call_Validate
  | Call_Graduate

datatype val = VVoid | VBool bool | VChar char | VFloat cfloat | VString string

fun invoke :: "member_call \<Rightarrow> Student \<Rightarrow> proc \<Rightarrow> val result \<times> Student \<times> proc" where
  "invoke Call_GetFirstName this p = (Returned (VString (GetFirstName this)), this, p)"
| "invoke Call_GetLastName this p = (Returned (VString (GetLastName this)), this, p)"
| "invoke Call_GetTitle this p = (Returned (VString (GetTitle this)), this, p)"
| "invoke Call_GetMiddleInitial this p = (Returned (VChar (GetMiddleInitial this)), this, p)"
| "invoke (Call_Greeting msg) this p = (Returned VVoid, this, Greeting msg this p)"
| "invoke Call_EarnPhD this p = (Returned VVoid, EarnPhD this, p)"
| "invoke Call_TakePrerequisites this p =
     (case TakePrerequisites this p of
        (Returned b, this', p') \<Rightarrow> (Returned (VBool b), this', p')
      | (Thrown e, this', p') \<Rightarrow> (Thrown e, this', p'))"
| "invoke Call_GetGpa this p = (Returned (VFloat (GetGpa this)), this, p)"
| "invoke Call_GetCurrentCourse this p = (Returned (VString (GetCurrentCourse this)), this, p)"
| "invoke Call_GetStudentId this p = (Returned (VString (GetStudentId this)), this, p)"
| "invoke (Call_SetCurrentCourse c) this p = (Returned VVoid, SetCurrentCourse c this, p)"
| "invoke Call_Print this p = (Returned VVoid, this, Student_Print this p)"
| "invoke Call_IsA this p = (Returned VVoid, this, Student_IsA this p)"
| "invoke Call_Validate this p =
     (case Validate this p of
        (Returned u, this', p') \<Rightarrow> (Returned VVoid, this', p')
      | (Thrown e, this', p') \<Rightarrow> (Thrown e, this', p'))"
| "invoke Call_Graduate this p =
     (case Graduate this p of
        (Returned u, this', p') \<Rightarrow> (Returned VVoid, this', p')
      | (Thrown e, this', p') \<Rightarrow> (Thrown e, this', p'))"

text \<open>
  A sequence of calls on one object, by a caller that catches whatever a call throws
  and goes on with the next call.
\<close>

fun invoke_all :: "member_call list \<Rightarrow> Student \<Rightarrow> proc \<Rightarrow> Student \<times> proc" where
  "invoke_all [] this p = (this, p)"
| "invoke_all (c # cs) this p = (case invoke c this p of (r, this', p') \<Rightarrow> invoke_all cs this' p')"

subsection \<open>The lifetime of Student objects\<close>

text \<open>
  A program creates a Student object, in storage that holds no object, with one of the
  three constructors (the copy constructor reads a live object) and ends the lifetime
  of a live object with the destructor. A world is the process state together with the
  live Student objects, by address. A step that no C++ program with defined behaviour
  makes (a constructor in occupied storage, a copy or a destructor call on an address
  with no live object, an overflow of the counter) gives \<open>None\<close>.
\<close>

record world =
  objects :: "nat \<rightharpoonup> Student"
  process :: proc

datatype event =
    Construct_default nat
  | Construct string string char string cfloat string string nat
  | Construct_copy nat nat
  | Destroy nat

fun is_construction :: "event \<Rightarrow> bool" where
  "is_construction (Destroy a) = False"
| "is_construction e = True"

definition place :: "world \<Rightarrow> nat \<Rightarrow> (Student \<times> proc) option \<Rightarrow> world option" where
  "place w a r =
     (case objects w a of
        Some occupied \<Rightarrow> None
      | None \<Rightarrow>
          (case r of
             None \<Rightarrow> None
           | Some (s, p') \<Rightarrow> Some \<lparr>objects = (objects w)(a \<mapsto> s), process = p'\<rparr>))"

fun step :: "world \<Rightarrow> event \<Rightarrow> world option" where
  "step w (Construct_default a) = place w a (Student_default_ctor (process w))"
| "step w (Construct fname lname mi t avg course ident a) =
     place w a (Student_ctor fname lname mi t avg course ident (process w))"
| "step w (Construct_copy a src) =
     (case objects w src of
        None \<Rightarrow> None
      | Some s \<Rightarrow> place w a (Student_copy_ctor s (process w)))"
| "step w (Destroy a) =
     (case objects w a of
        None \<Rightarrow> None
      | Some s \<Rightarrow>
          (case Student_dtor s (process w) of
             None \<Rightarrow> None
           | Some p' \<Rightarrow> Some \<lparr>objects = (objects w)(a := None), process = p'\<rparr>))"

fun run :: "world \<Rightarrow> event list \<Rightarrow> world option" where
  "run w [] = Some w"
| "run w (e # es) = (case step w e of None \<Rightarrow> None | Some w' \<Rightarrow> run w' es)"

definition initial_world :: world where
  "initial_world = \<lparr>objects = Map.empty, process = initial_proc\<rparr>"

subsection \<open>Handlers, the terminate function and \<^verbatim>\<open>main\<close>\<close>

text \<open>How the process ends: \<^verbatim>\<open>exit(n)\<close> (or a return of \<open>n\<close> from \<^verbatim>\<open>main\<close>), or \<^verbatim>\<open>abort()\<close>.\<close>

datatype status = Exit int | Abort

definition set_terminate :: "terminate_fn \<Rightarrow> proc \<Rightarrow> proc" where
  "set_terminate f p = p\<lparr>terminate_handler := f\<rparr>"

definition AppSpecificTerminate :: "proc \<Rightarrow> status \<times> proc" where
  "AppSpecificTerminate p =
     (Exit 1, put [OStr ''Uncaught exception. Program terminating'', OEndl] p)"

text \<open>
  \<^verbatim>\<open>std::terminate\<close>, which the runtime calls for an exception that no handler
  catches: it calls the registered function, and the default one aborts.
\<close>

definition terminate :: "proc \<Rightarrow> status \<times> proc" where
  "terminate p =
     (case terminate_handler p of
        AppSpecific \<Rightarrow> AppSpecificTerminate p
      | DefaultTerminate \<Rightarrow> (Abort, p))"

text \<open>
  A handler is declared with the type it catches, or with \<^verbatim>\<open>...\<close>, and its body
  receives the caught value. On the exception objects of type \<^typ>\<open>exn\<close>, a handler
  for a type is entered for an exception object of that type only: a handler applies
  no conversion between \<^verbatim>\<open>float\<close> and \<^verbatim>\<open>int\<close>, and the exception objects that
  a handler accepts through a pointer conversion or as a base class are not values of
  \<^typ>\<open>exn\<close> (see there). \<^verbatim>\<open>catch (...)\<close> is entered for every exception.
\<close>

datatype clause =
    CatchFloat "cfloat \<Rightarrow> proc \<Rightarrow> status \<times> proc"
  | CatchInt "int \<Rightarrow> proc \<Rightarrow> status \<times> proc"
  | CatchCString "string \<Rightarrow> proc \<Rightarrow> status \<times> proc"
  | CatchStudentException "StudentException \<Rightarrow> proc \<Rightarrow> status \<times> proc"
  | CatchAll "proc \<Rightarrow> status \<times> proc"

fun try_clause :: "clause \<Rightarrow> exn \<Rightarrow> proc \<Rightarrow> (status \<times> proc) option" where
  "try_clause (CatchFloat body) (ExFloat err) p = Some (body err p)"
| "try_clause (CatchInt body) (ExInt err) p = Some (body err p)"
| "try_clause (CatchCString body) (ExCString err) p = Some (body err p)"
| "try_clause (CatchStudentException body) (ExStudentException err) p = Some (body err p)"
| "try_clause (CatchAll body) e p = Some (body p)"
| "try_clause c e p = None"

text \<open>
  The handlers of a try block are tried in the order they are written, and the first
  one that matches is entered. The result names its position, counted from \<open>i\<close>.
\<close>

fun dispatch_from :: "nat \<Rightarrow> clause list \<Rightarrow> exn \<Rightarrow> proc \<Rightarrow> (nat \<times> status \<times> proc) option" where
  "dispatch_from i [] e p = None"
| "dispatch_from i (c # cs) e p =
     (case try_clause c e p of
        Some r \<Rightarrow> Some (i, r)
      | None \<Rightarrow> dispatch_from (Suc i) cs e p)"

definition dispatch :: "clause list \<Rightarrow> exn \<Rightarrow> proc \<Rightarrow> (nat \<times> status \<times> proc) option" where
  "dispatch cs e p = dispatch_from 0 cs e p"

text \<open>The bodies of the five handlers of \<^verbatim>\<open>main\<close>, each ending in \<^verbatim>\<open>exit\<close>.\<close>

definition main_catch_float :: "cfloat \<Rightarrow> proc \<Rightarrow> status \<times> proc" where
  "main_catch_float err p = (Exit 1, put [OStr ''Too low gpa: '', OFloat err, OEndl] p)"

definition main_catch_int :: "int \<Rightarrow> proc \<Rightarrow> status \<times> proc" where
  "main_catch_int err p = (Exit 2, put [OStr ''Missing '', OInt err, OStr '' credits'', OEndl] p)"

definition main_catch_cstring :: "string \<Rightarrow> proc \<Rightarrow> status \<times> proc" where
  "main_catch_cstring err p = (Exit 4, put [OStr err, OEndl] p)"

definition main_catch_StudentException :: "StudentException \<Rightarrow> proc \<Rightarrow> status \<times> proc" where
  "main_catch_StudentException err p = (Exit 5, put [OStr ''Error: '', OInt (GetNum err), OEndl] p)"

definition main_catch_all :: "proc \<Rightarrow> status \<times> proc" where
  "main_catch_all p = (Exit 6, put [OStr ''Exiting'', OEndl] p)"

definition main_clauses :: "clause list" where
  "main_clauses =
     [CatchFloat main_catch_float,
      CatchInt main_catch_int,
      CatchCString main_catch_cstring,
      CatchStudentException main_catch_StudentException,
      CatchAll main_catch_all]"

text \<open>
  An exception that reaches a try block in \<^verbatim>\<open>main\<close>: the first matching handler
  runs; with no matching handler the exception leaves \<^verbatim>\<open>main\<close> uncaught and
  \<^verbatim>\<open>std::terminate\<close> is called.
\<close>

definition handle_in_main :: "clause list \<Rightarrow> exn \<Rightarrow> proc \<Rightarrow> status \<times> proc" where
  "handle_in_main cs e p =
     (case dispatch cs e p of
        Some (i, r) \<Rightarrow> r
      | None \<Rightarrow> terminate p)"

text \<open>
  The \<^verbatim>\<open>double\<close> literal \<^verbatim>\<open>3.1\<close>, converted to the \<^verbatim>\<open>float\<close> parameter \<^verbatim>\<open>avg\<close>:
  the nearest \<^verbatim>\<open>float\<close>, \<open>13002342 / 2 ^ 22\<close>.
\<close>

definition float_3_1 :: cfloat where
  "float_3_1 = FNum (6501171 / 2097152)"

text \<open>
  \<^verbatim>\<open>main\<close>, from the start of the process. A normal return from \<^verbatim>\<open>Graduate\<close>
  would go on after the try block, destroy \<^verbatim>\<open>s1\<close> and return 0.
\<close>

definition main :: "(status \<times> proc) option" where
  "main =
     (let p0 = set_terminate AppSpecific initial_proc
      in (case Student_ctor ''Ling'' ''Mau'' CHR ''I'' ''Ms.'' float_3_1 ''C++'' ''55UD'' p0 of
            None \<Rightarrow> None
          | Some (s1, p1) \<Rightarrow>
              (case Graduate s1 p1 of
                 (Thrown e, s1', p2) \<Rightarrow> Some (handle_in_main main_clauses e p2)
               | (Returned u, s1', p2) \<Rightarrow>
                   (let p3 = put [OStr ''Moving onward with remainder of code.'', OEndl] p2
                    in (case Student_dtor s1' p3 of
                          None \<Rightarrow> None
                        | Some p4 \<Rightarrow> Some (Exit 0, p4))))))"

text \<open>
  The sequences of constructions and destructions that a program with defined
  behaviour can go through when the objects at the addresses \<open>L\<close> are live: a
  constructor runs in storage that holds no live object, the copy constructor reads a
  live object, the destructor ends the lifetime of a live object, and the number of
  live objects stays in the range of an \<^verbatim>\<open>int\<close> (the default constructor adds 100
  to it for the identifier).
\<close>

fun feasible :: "nat set \<Rightarrow> event list \<Rightarrow> bool" where
  "feasible L [] = True"
| "feasible L (Construct_default a # es) =
     (a \<notin> L \<and> int (card L) + 100 \<le> INT_MAX \<and> feasible (insert a L) es)"
| "feasible L (Construct fname lname mi t avg course ident a # es) =
     (a \<notin> L \<and> int (card L) < INT_MAX \<and> feasible (insert a L) es)"
| "feasible L (Construct_copy a src # es) =
     (a \<notin> L \<and> src \<in> L \<and> int (card L) < INT_MAX \<and> feasible (insert a L) es)"
| "feasible L (Destroy a # es) = (a \<in> L \<and> feasible (L - {a}) es)"

text \<open>The counter agrees with the live objects of a world.\<close>

definition counted :: "world \<Rightarrow> bool" where
  "counted w =
     (finite (dom (objects w)) \<and> numStudents (process w) = int (card (dom (objects w))))"

section \<open>Properties\<close>

subsection \<open>Comparisons of floats\<close>

lemma float_ge_not_less: "float_ge x y \<Longrightarrow> \<not> float_less x y"
  by (cases x; cases y) (auto simp: float_ge_def)

subsection \<open>Arithmetic in range\<close>

lemma int_add_Some: "int_add a b = Some c \<Longrightarrow> c = a + b"
  by (auto simp: int_add_def split: if_splits)

lemma int_add_defined:
  "INT_MIN \<le> a + b \<Longrightarrow> a + b \<le> INT_MAX \<Longrightarrow> int_add a b = Some (a + b)"
  by (simp add: int_add_def)

lemma int_add_range: "int_add a b = Some c \<Longrightarrow> INT_MIN \<le> c \<and> c \<le> INT_MAX"
  by (auto simp: int_add_def split: if_splits)

subsection \<open>Decimal numerals\<close>

text \<open>
  Two numerals, for the evaluation of concrete constructions.
\<close>

lemma to_string_100: "to_string 100 = ''100''"
  by code_simp

lemma to_string_101: "to_string 101 = ''101''"
  by code_simp

subsection \<open>Construction, destruction and the counter\<close>

text \<open>
  What a constructor or the destructor does when its behaviour is defined.
\<close>

lemma Student_default_ctor_Some:
  "Student_default_ctor p = Some (s, p') \<Longrightarrow>
     p' = p\<lparr>numStudents := numStudents p + 1\<rparr> \<and>
     s = Student_object Person_default_ctor (FNum 0) [] (to_string (numStudents p + 100) @ ''Id'')"
  by (auto simp: Student_default_ctor_def Let_def dest!: int_add_Some split: option.splits)

lemma Student_ctor_Some:
  "Student_ctor fname lname mi t avg course ident p = Some (s, p') \<Longrightarrow>
     p' = p\<lparr>numStudents := numStudents p + 1\<rparr> \<and>
     s = Student_object (Person_ctor fname lname mi t) avg course ident"
  by (auto simp: Student_ctor_def Let_def dest!: int_add_Some split: option.splits)

lemma Student_copy_ctor_Some:
  "Student_copy_ctor s0 p = Some (s, p') \<Longrightarrow>
     p' = p\<lparr>numStudents := numStudents p + 1\<rparr> \<and> s = s0"
  by (auto simp: Student_copy_ctor_def Let_def Student_object_def Person_copy_ctor_def
      dest!: int_add_Some split: option.splits)

lemma Student_dtor_Some:
  "Student_dtor s p = Some p' \<Longrightarrow> p' = p\<lparr>numStudents := numStudents p - 1\<rparr>"
  by (auto simp: Student_dtor_def dest!: int_add_Some split: option.splits)

text \<open>
  The constructors and the destructor are defined as long as the counter stays in the
  range of \<^verbatim>\<open>int\<close>.
\<close>

lemma Student_default_ctor_defined:
  "0 \<le> numStudents p \<Longrightarrow> numStudents p + 100 \<le> INT_MAX \<Longrightarrow>
     \<exists>s p'. Student_default_ctor p = Some (s, p')"
  by (simp add: Student_default_ctor_def Let_def int_add_def INT_MIN_def)

lemma Student_ctor_defined:
  "0 \<le> numStudents p \<Longrightarrow> numStudents p < INT_MAX \<Longrightarrow>
     \<exists>s p'. Student_ctor fname lname mi t avg course ident p = Some (s, p')"
  by (simp add: Student_ctor_def Let_def int_add_def INT_MIN_def)

lemma Student_copy_ctor_defined:
  "0 \<le> numStudents p \<Longrightarrow> numStudents p < INT_MAX \<Longrightarrow>
     \<exists>c p'. Student_copy_ctor s p = Some (c, p')"
  by (simp add: Student_copy_ctor_def Let_def int_add_def INT_MIN_def)

lemma Student_dtor_defined:
  "0 < numStudents p \<Longrightarrow> numStudents p \<le> INT_MAX \<Longrightarrow> \<exists>p'. Student_dtor s p = Some p'"
  by (simp add: Student_dtor_def int_add_def INT_MIN_def)

lemma place_Some:
  "place w a r = Some w' \<Longrightarrow>
     \<exists>s p'. r = Some (s, p') \<and> objects w a = None \<and>
       w' = \<lparr>objects = (objects w)(a \<mapsto> s), process = p'\<rparr>"
  by (auto simp: place_def split: option.splits)

text \<open>The counter after a step.\<close>

lemma step_construction:
  assumes "step w e = Some w'" and "is_construction e"
  shows "numStudents (process w') = numStudents (process w) + 1"
    and "\<exists>a. a \<notin> dom (objects w) \<and> dom (objects w') = insert a (dom (objects w))"
  using assms
  by (cases e; auto dest!: place_Some Student_default_ctor_Some Student_ctor_Some
        Student_copy_ctor_Some split: option.splits)+

lemma step_destruction:
  assumes "step w e = Some w'" and "\<not> is_construction e"
  shows "numStudents (process w') = numStudents (process w) - 1"
    and "\<exists>a. a \<in> dom (objects w) \<and> dom (objects w') = dom (objects w) - {a}"
  using assms
  by (cases e; auto dest!: Student_dtor_Some split: option.splits)+

text \<open>
  A step leaves the other live objects as they are.
\<close>

lemma step_keeps_objects:
  "step w e = Some w' \<Longrightarrow> objects w a = Some x \<Longrightarrow> objects w' a = Some y \<Longrightarrow> y = x"
  by (cases e) (auto dest!: place_Some split: option.splits if_splits)

text \<open>
  The steps keep the counter equal to the number of live objects.
\<close>

lemma counted_step: "counted w \<Longrightarrow> step w e = Some w' \<Longrightarrow> counted w'"
proof (cases "is_construction e")
  case True
  assume c: "counted w" and s: "step w e = Some w'"
  from step_construction(2) [OF s True] obtain a
    where a: "a \<notin> dom (objects w)" "dom (objects w') = insert a (dom (objects w))" by blast
  with c step_construction(1) [OF s True] show ?thesis
    by (simp add: counted_def)
next
  case False
  assume c: "counted w" and s: "step w e = Some w'"
  from step_destruction(2) [OF s False] obtain a
    where a: "a \<in> dom (objects w)" "dom (objects w') = dom (objects w) - {a}" by blast
  from c a have "card (dom (objects w)) > 0" by (auto simp: counted_def card_gt_0_iff)
  with c a step_destruction(1) [OF s False] show ?thesis
    by (simp add: counted_def)
qed

lemma counted_run: "counted w \<Longrightarrow> run w es = Some w' \<Longrightarrow> counted w'"
  by (induction es arbitrary: w) (auto split: option.splits dest: counted_step)

lemma counted_initial: "counted initial_world"
  by (simp add: counted_def initial_world_def initial_proc_def)

text \<open>
  The counter after a run: one up for each construction, one down for each destruction.
\<close>

lemma run_counter:
  "run w es = Some w' \<Longrightarrow>
     numStudents (process w') =
       numStudents (process w) + int (length (filter is_construction es))
         - int (length (filter (\<lambda>e. \<not> is_construction e) es))"
proof (induction es arbitrary: w)
  case Nil
  then show ?case by simp
next
  case (Cons e es)
  from Cons.prems obtain w1 where s: "step w e = Some w1" and r: "run w1 es = Some w'"
    by (auto split: option.splits)
  show ?case
  proof (cases "is_construction e")
    case True
    with Cons.IH [OF r] step_construction(1) [OF s True] show ?thesis by simp
  next
    case False
    with Cons.IH [OF r] step_destruction(1) [OF s False] show ?thesis by simp
  qed
qed

lemma step_in_range:
  "step w e = Some w' \<Longrightarrow> numStudents (process w') \<le> INT_MAX"
  by (cases e)
    (auto simp: place_def Student_default_ctor_def Student_ctor_def Student_copy_ctor_def
      Student_dtor_def Let_def split: option.splits dest: int_add_range)

lemma run_in_range:
  "numStudents (process w) \<le> INT_MAX \<Longrightarrow> run w es = Some w' \<Longrightarrow>
     numStudents (process w') \<le> INT_MAX"
  by (induction es arbitrary: w) (auto split: option.splits dest: step_in_range)

text \<open>
  A construction in free storage is defined as long as the counter stays in range.
\<close>

lemma construct_defined:
  assumes "objects w a = None" and "0 \<le> numStudents (process w)"
    and "numStudents (process w) + 100 \<le> INT_MAX"
  shows "\<exists>w'. step w (Construct_default a) = Some w'"
    and "\<exists>w'. step w (Construct fname lname mi t avg course ident a) = Some w'"
    and "objects w src = Some s \<Longrightarrow> \<exists>w'. step w (Construct_copy a src) = Some w'"
  using assms
  by (simp_all add: place_def Student_default_ctor_def Student_ctor_def Student_copy_ctor_def
      Let_def int_add_def INT_MIN_def)

text \<open>
  From the start of the process, the destructor of a live object is always defined:
  the counter is positive when there is a live object.
\<close>

lemma destroy_live_defined:
  assumes "run initial_world es = Some w" and "objects w a = Some s"
  shows "\<exists>w'. step w (Destroy a) = Some w'"
proof -
  from counted_run [OF counted_initial assms(1)] have c: "counted w" .
  from assms(2) have "a \<in> dom (objects w)" by auto
  with c have "0 < card (dom (objects w))" by (auto simp: counted_def card_gt_0_iff)
  with c have pos: "0 < numStudents (process w)" by (simp add: counted_def)
  have "numStudents (process initial_world) \<le> INT_MAX"
    by (simp add: initial_world_def initial_proc_def INT_MAX_def)
  from run_in_range [OF this assms(1)] have "numStudents (process w) \<le> INT_MAX" .
  from Student_dtor_defined [OF pos this] obtain p' where "Student_dtor s (process w) = Some p'"
    by blast
  with assms(2) show ?thesis by simp
qed

text \<open>
  Only a feasible sequence runs to its end, from a world in which the counter is the
  number of live objects.
\<close>

lemma run_Some_feasible:
  "counted w \<Longrightarrow> run w es = Some w' \<Longrightarrow> feasible (dom (objects w)) es"
proof (induction es arbitrary: w)
  case Nil
  show ?case by simp
next
  case (Cons e es)
  from Cons.prems(2) obtain w1 where s: "step w e = Some w1" and r: "run w1 es = Some w'"
    by (auto split: option.splits)
  from Cons.IH [OF counted_step [OF Cons.prems(1) s] r]
  have rest: "feasible (dom (objects w1)) es" .
  from Cons.prems(1) have n: "numStudents (process w) = int (card (dom (objects w)))"
    by (simp add: counted_def)
  show ?case
  proof (cases e)
    case (Construct_default a)
    with s rest n show ?thesis
      by (auto simp: Student_default_ctor_def Let_def int_add_def
          dest!: place_Some split: option.splits if_splits)
  next
    case (Construct fname lname mi t avg course ident a)
    with s rest n show ?thesis
      by (auto simp: Student_ctor_def Let_def int_add_def
          dest!: place_Some split: option.splits if_splits)
  next
    case (Construct_copy a src)
    with s rest n show ?thesis
      by (auto simp: Student_copy_ctor_def Let_def int_add_def
          dest!: place_Some split: option.splits if_splits)
  next
    case (Destroy a)
    with s rest show ?thesis
      by (auto split: option.splits)
  qed
qed

lemmas eval_defs =
  initial_world_def initial_proc_def place_def Student_default_ctor_def Student_copy_ctor_def
  Student_ctor_def Student_dtor_def int_add_def INT_MAX_def INT_MIN_def to_string_100
  to_string_101 Student_object_def Person_default_ctor_def Person_copy_ctor_def Person_ctor_def

subsection \<open>Calls of member functions\<close>

text \<open>
  No public member function assigns to \<^verbatim>\<open>studentId\<close>.
\<close>

lemma invoke_studentId: "studentId (fst (snd (invoke c s p))) = studentId s"
  by (cases c)
    (simp_all add: EarnPhD_def ModifyTitle_def SetCurrentCourse_def TakePrerequisites_def
      Validate_def Graduate_def Let_def)

lemma invoke_all_studentId: "studentId (fst (invoke_all cs s p)) = studentId s"
proof (induction cs arbitrary: s p)
  case Nil
  show ?case by simp
next
  case (Cons c cs)
  obtain r s' p' where i: "invoke c s p = (r, s', p')" by (cases "invoke c s p")
  with invoke_studentId [of c s p] have "studentId s' = studentId s" by simp
  with Cons.IH [of s' p'] i show ?case by simp
qed

subsection \<open>The handlers of main\<close>

text \<open>The handler of \<^verbatim>\<open>main\<close> that is entered, for each type of exception.\<close>

lemma dispatch_main_float:
  "dispatch main_clauses (ExFloat g) p = Some (0, main_catch_float g p)"
  by (simp add: dispatch_def main_clauses_def)

lemma dispatch_main_int:
  "dispatch main_clauses (ExInt n) p = Some (1, main_catch_int n p)"
  by (simp add: dispatch_def main_clauses_def)

lemma dispatch_main_cstring:
  "dispatch main_clauses (ExCString m) p = Some (2, main_catch_cstring m p)"
  by (simp add: dispatch_def main_clauses_def)

lemma dispatch_main_StudentException:
  "dispatch main_clauses (ExStudentException x) p = Some (3, main_catch_StudentException x p)"
  by (simp add: dispatch_def main_clauses_def)

lemma dispatch_main_other:
  "dispatch main_clauses ExOther p = Some (4, main_catch_all p)"
  by (simp add: dispatch_def main_clauses_def)

text \<open>\<^verbatim>\<open>main\<close> as it is written: the GPA is 3.1, and the process exits with 5.\<close>

lemma main_exits_5:
  "main = Some (Exit 5,
     \<lparr>numStudents = 1, cout = [OStr ''Error: '', OInt 5, OEndl], heap = [\<lparr>number = 5\<rparr>],
      terminate_handler = AppSpecific\<rparr>)"
  by (simp add: main_def set_terminate_def eval_defs float_3_1_def Graduate_def Let_def
      StudentException_ctor_def handle_in_main_def dispatch_main_StudentException
      main_catch_StudentException_def GetNum_def put_def)

subsection \<open>Graduate\<close>

text \<open>
  C1. For every Student whose GPA is strictly below 2.0, \<open>Graduate\<close> throws a
  \<^verbatim>\<open>float\<close> whose value is exactly that Student's GPA. The test of the GPA comes
  first: nothing else of the Student or of the process is looked at or changed, and
  no \<^verbatim>\<open>StudentException\<close> is allocated.
\<close>

theorem Graduate_low_gpa:
  "float_less (gpa s) (FNum 2) \<Longrightarrow> Graduate s p = (Thrown (ExFloat (gpa s)), s, p)"
  by (simp add: Graduate_def)

theorem Graduate_low_gpa_witness:
  "float_less (gpa (Student_object (Person_ctor ''Ling'' ''Mau'' CHR ''I'' ''Ms.'')
                     (FNum (3 / 2)) ''C++'' ''55UD'')) (FNum 2)
   \<and> Graduate (Student_object (Person_ctor ''Ling'' ''Mau'' CHR ''I'' ''Ms.'')
                 (FNum (3 / 2)) ''C++'' ''55UD'') initial_proc
       = (Thrown (ExFloat (FNum (3 / 2))),
          Student_object (Person_ctor ''Ling'' ''Mau'' CHR ''I'' ''Ms.'')
            (FNum (3 / 2)) ''C++'' ''55UD'',
          initial_proc)"
proof -
  have h: "float_less (gpa (Student_object (Person_ctor ''Ling'' ''Mau'' CHR ''I'' ''Ms.'')
                     (FNum (3 / 2)) ''C++'' ''55UD'')) (FNum 2)"
    by (simp add: Student_object_def)
  from Graduate_low_gpa [OF h, of initial_proc] h show ?thesis
    by (simp add: Student_object_def)
qed

text \<open>
  C2. For every Student whose GPA is greater than or equal to 2.0, \<open>Graduate\<close>
  throws a \<^verbatim>\<open>StudentException\<close> whose number is 5 (and leaves the object made by
  \<^verbatim>\<open>new\<close> on the heap). For every Student and every process state, a GPA that
  is a NaN included, \<open>Graduate\<close> completes by a throw: it never returns normally.
\<close>

theorem Graduate_never_returns:
  "(float_ge (gpa s) (FNum 2) \<longrightarrow>
      Graduate s p = (Thrown (ExStudentException (StudentException_ctor 5)), s,
                      p\<lparr>heap := heap p @ [StudentException_ctor 5]\<rparr>)
      \<and> GetNum (StudentException_ctor 5) = 5)
   \<and> (\<exists>e. fst (Graduate s' p') = Thrown e)"
proof (intro conjI impI)
  assume "float_ge (gpa s) (FNum 2)"
  then have "\<not> float_less (gpa s) (FNum 2)" by (rule float_ge_not_less)
  then show "Graduate s p = (Thrown (ExStudentException (StudentException_ctor 5)), s,
                      p\<lparr>heap := heap p @ [StudentException_ctor 5]\<rparr>)"
    by (simp add: Graduate_def Let_def)
next
  show "GetNum (StudentException_ctor 5) = 5"
    by (simp add: GetNum_def StudentException_ctor_def)
next
  show "\<exists>e. fst (Graduate s' p') = Thrown e"
    by (simp add: Graduate_def Let_def)
qed

theorem Graduate_never_returns_witness:
  "float_ge (gpa (Student_object (Person_ctor ''Ling'' ''Mau'' CHR ''I'' ''Ms.'')
                   float_3_1 ''C++'' ''55UD'')) (FNum 2)
   \<and> Graduate (Student_object (Person_ctor ''Ling'' ''Mau'' CHR ''I'' ''Ms.'')
                 float_3_1 ''C++'' ''55UD'') initial_proc
       = (Thrown (ExStudentException \<lparr>number = 5\<rparr>),
          Student_object (Person_ctor ''Ling'' ''Mau'' CHR ''I'' ''Ms.'') float_3_1 ''C++'' ''55UD'',
          initial_proc\<lparr>heap := [\<lparr>number = 5\<rparr>]\<rparr>)
   \<and> (\<exists>e. fst (Graduate (Student_object Person_default_ctor NaN [] ''100Id'') initial_proc)
             = Thrown e)"
proof -
  have h: "float_ge (gpa (Student_object (Person_ctor ''Ling'' ''Mau'' CHR ''I'' ''Ms.'')
                   float_3_1 ''C++'' ''55UD'')) (FNum 2)"
    by (simp add: Student_object_def float_3_1_def float_ge_def)
  from Graduate_never_returns
         [of "Student_object (Person_ctor ''Ling'' ''Mau'' CHR ''I'' ''Ms.'') float_3_1 ''C++'' ''55UD''"
             initial_proc "Student_object Person_default_ctor NaN [] ''100Id''" initial_proc] h
  show ?thesis
    by (simp add: StudentException_ctor_def initial_proc_def)
qed

subsection \<open>Exit status and handler order\<close>

text \<open>
  C3. The exit status is fixed by the handler that runs: 1 for a caught \<^verbatim>\<open>float\<close>,
  2 for a caught \<^verbatim>\<open>int\<close>, 4 for a caught \<^verbatim>\<open>const char *\<close>, 5 for a caught
  \<^verbatim>\<open>StudentException\<close>, whatever the caught value and the process state, and 6
  for an exception object of a type that none of these four handlers accepts, which
  \<^verbatim>\<open>catch (...)\<close> takes; \<open>AppSpecificTerminate\<close> exits with 1, and so does a try
  block with no matching handler once \<open>AppSpecificTerminate\<close> is registered.
\<close>

theorem exit_status_by_handler:
  "fst (handle_in_main main_clauses (ExFloat g) p) = Exit 1
   \<and> fst (handle_in_main main_clauses (ExInt n) p) = Exit 2
   \<and> fst (handle_in_main main_clauses (ExCString m) p) = Exit 4
   \<and> fst (handle_in_main main_clauses (ExStudentException x) p) = Exit 5
   \<and> fst (handle_in_main main_clauses ExOther p) = Exit 6
   \<and> fst (AppSpecificTerminate p) = Exit 1
   \<and> fst (handle_in_main [] e (set_terminate AppSpecific p)) = Exit 1"
proof (intro conjI)
  show "fst (handle_in_main main_clauses (ExFloat g) p) = Exit 1"
    by (simp add: handle_in_main_def dispatch_def main_clauses_def main_catch_float_def)
  show "fst (handle_in_main main_clauses (ExInt n) p) = Exit 2"
    by (simp add: handle_in_main_def dispatch_def main_clauses_def main_catch_int_def)
  show "fst (handle_in_main main_clauses (ExCString m) p) = Exit 4"
    by (simp add: handle_in_main_def dispatch_def main_clauses_def main_catch_cstring_def)
  show "fst (handle_in_main main_clauses (ExStudentException x) p) = Exit 5"
    by (simp add: handle_in_main_def dispatch_def main_clauses_def
        main_catch_StudentException_def)
  show "fst (handle_in_main main_clauses ExOther p) = Exit 6"
    by (simp add: handle_in_main_def dispatch_def main_clauses_def main_catch_all_def)
  show "fst (AppSpecificTerminate p) = Exit 1"
    by (simp add: AppSpecificTerminate_def)
  show "fst (handle_in_main [] e (set_terminate AppSpecific p)) = Exit 1"
    by (simp add: handle_in_main_def dispatch_def terminate_def set_terminate_def
        AppSpecificTerminate_def)
qed

theorem exit_status_by_handler_witness:
  "fst (handle_in_main main_clauses (ExFloat (FNum (3 / 2))) initial_proc) = Exit 1
   \<and> fst (handle_in_main main_clauses (ExInt 12) initial_proc) = Exit 2
   \<and> fst (handle_in_main main_clauses (ExCString ''Student does not meet prerequisites'')
            initial_proc) = Exit 4
   \<and> fst (handle_in_main main_clauses (ExStudentException \<lparr>number = 5\<rparr>) initial_proc) = Exit 5
   \<and> fst (handle_in_main main_clauses ExOther initial_proc) = Exit 6
   \<and> fst (AppSpecificTerminate initial_proc) = Exit 1
   \<and> fst (handle_in_main [] (ExInt 12) (set_terminate AppSpecific initial_proc)) = Exit 1"
  using exit_status_by_handler
          [of "FNum (3 / 2)" initial_proc 12 "''Student does not meet prerequisites''"
              "\<lparr>number = 5\<rparr>" "ExInt 12"]
  by simp

text \<open>
  C4. With the handlers of \<^verbatim>\<open>main\<close> in their order (\<^verbatim>\<open>float\<close>, \<^verbatim>\<open>int\<close>,
  \<^verbatim>\<open>const char *\<close>, \<^verbatim>\<open>StudentException\<close>, \<^verbatim>\<open>...\<close>), a thrown
  \<^verbatim>\<open>StudentException\<close> enters the fourth handler (position 3 from 0), the one
  declared for \<^verbatim>\<open>StudentException\<close>, for every number it carries: the three
  handlers before it do not match, and the search stops at the first match, so no
  later handler is entered. The match is on the type of the exception object: an
  \<^verbatim>\<open>int\<close> with the same number enters the \<^verbatim>\<open>int\<close> handler instead.
\<close>

theorem StudentException_first_match:
  "dispatch main_clauses (ExStudentException x) p = Some (3, main_catch_StudentException x p)
   \<and> main_clauses ! 3 = CatchStudentException main_catch_StudentException
   \<and> try_clause (main_clauses ! 0) (ExStudentException x) p = None
   \<and> try_clause (main_clauses ! 1) (ExStudentException x) p = None
   \<and> try_clause (main_clauses ! 2) (ExStudentException x) p = None
   \<and> dispatch main_clauses (ExInt (GetNum x)) p = Some (1, main_catch_int (GetNum x) p)"
  by (simp add: dispatch_def main_clauses_def)

theorem StudentException_first_match_witness:
  "dispatch main_clauses (ExStudentException \<lparr>number = 5\<rparr>) initial_proc
     = Some (3, Exit 5, initial_proc\<lparr>cout := [OStr ''Error: '', OInt 5, OEndl]\<rparr>)
   \<and> main_clauses ! 3 = CatchStudentException main_catch_StudentException
   \<and> try_clause (main_clauses ! 0) (ExStudentException \<lparr>number = 5\<rparr>) initial_proc = None
   \<and> try_clause (main_clauses ! 1) (ExStudentException \<lparr>number = 5\<rparr>) initial_proc = None
   \<and> try_clause (main_clauses ! 2) (ExStudentException \<lparr>number = 5\<rparr>) initial_proc = None
   \<and> dispatch main_clauses (ExInt 5) initial_proc
       = Some (1, Exit 2, initial_proc\<lparr>cout := [OStr ''Missing '', OInt 5, OStr '' credits'', OEndl]\<rparr>)"
  using StudentException_first_match [of "\<lparr>number = 5\<rparr>" initial_proc]
  by (simp add: main_catch_StudentException_def main_catch_int_def GetNum_def put_def
      initial_proc_def)

subsection \<open>The population counter and the student identifier\<close>

text \<open>
  C5. With the counter in the range of an \<^verbatim>\<open>int\<close>, so that its increment or
  decrement does not overflow, each of the three constructors returns the new object
  and adds exactly one to the counter, and the destructor takes exactly one off; they
  change nothing else of the process state. No public member function changes the
  counter. From the start of the process, every feasible sequence of constructions and
  destructions runs to its end, and the counter then is the number of live Student
  objects, so it is never negative. From any world in which the counter is the number
  of live objects, constructions followed by as many destructions, in any feasible
  order, run to their end and bring the counter back to the value it had.
\<close>

theorem population_counter:
  "(INT_MIN \<le> numStudents pA \<and> numStudents pA + 100 \<le> INT_MAX \<longrightarrow>
      Student_default_ctor pA =
        Some (Student_object Person_default_ctor (FNum 0) []
                (to_string (numStudents pA + 100) @ ''Id''),
              pA\<lparr>numStudents := numStudents pA + 1\<rparr>))
   \<and> (INT_MIN \<le> numStudents pB \<and> numStudents pB < INT_MAX \<longrightarrow>
      Student_ctor fname lname mi t avg course ident pB =
        Some (Student_object (Person_ctor fname lname mi t) avg course ident,
              pB\<lparr>numStudents := numStudents pB + 1\<rparr>))
   \<and> (INT_MIN \<le> numStudents pC \<and> numStudents pC < INT_MAX \<longrightarrow>
      Student_copy_ctor src pC = Some (src, pC\<lparr>numStudents := numStudents pC + 1\<rparr>))
   \<and> (INT_MIN < numStudents pD \<and> numStudents pD \<le> INT_MAX \<longrightarrow>
      Student_dtor sD pD = Some (pD\<lparr>numStudents := numStudents pD - 1\<rparr>))
   \<and> numStudents (snd (snd (invoke c s p))) = numStudents p
   \<and> numStudents (snd (invoke_all calls s p)) = numStudents p
   \<and> (feasible {} es \<longrightarrow>
        (\<exists>w. run initial_world es = Some w
           \<and> 0 \<le> numStudents (process w)
           \<and> numStudents (process w) = int (card (dom (objects w)))))
   \<and> (counted wE \<and> numStudents (process wE) \<le> INT_MAX
          \<and> feasible (dom (objects wE)) (cs @ ds) \<and> list_all is_construction cs
          \<and> list_all (\<lambda>e. \<not> is_construction e) ds \<and> length cs = length ds
        \<longrightarrow> (\<exists>wE'. run wE (cs @ ds) = Some wE'
              \<and> numStudents (process wE') = numStudents (process wE)))"
proof -
  have default_ctor: "Student_default_ctor q =
        Some (Student_object Person_default_ctor (FNum 0) []
                (to_string (numStudents q + 100) @ ''Id''),
              q\<lparr>numStudents := numStudents q + 1\<rparr>)"
    if "INT_MIN \<le> numStudents q" and "numStudents q + 100 \<le> INT_MAX" for q
    using that by (simp add: Student_default_ctor_def Let_def int_add_def)
  have ctor: "Student_ctor f l m h g k i q =
        Some (Student_object (Person_ctor f l m h) g k i, q\<lparr>numStudents := numStudents q + 1\<rparr>)"
    if "INT_MIN \<le> numStudents q" and "numStudents q < INT_MAX" for f l m h g k i q
    using that by (simp add: Student_ctor_def Let_def int_add_def)
  have copy_ctor: "Student_copy_ctor x q = Some (x, q\<lparr>numStudents := numStudents q + 1\<rparr>)"
    if "INT_MIN \<le> numStudents q" and "numStudents q < INT_MAX" for x q
    using that
    by (simp add: Student_copy_ctor_def Let_def int_add_def Student_object_def
        Person_copy_ctor_def)
  have dtor: "Student_dtor x q = Some (q\<lparr>numStudents := numStudents q - 1\<rparr>)"
    if "INT_MIN < numStudents q" and "numStudents q \<le> INT_MAX" for x q
    using that by (simp add: Student_dtor_def int_add_def)
  have call: "numStudents (snd (snd (invoke k x q))) = numStudents q" for k x q
    by (cases k)
      (simp_all add: TakePrerequisites_def Validate_def Graduate_def Let_def Greeting_def
        Student_Print_def Student_IsA_def put_def)
  have calls: "numStudents (snd (invoke_all ks x q)) = numStudents q" for ks x q
  proof (induction ks arbitrary: x q)
    case Nil
    show ?case by simp
  next
    case (Cons k ks)
    obtain r x' q' where i: "invoke k x q = (r, x', q')" by (cases "invoke k x q")
    with call [of k x q] have "numStudents q' = numStudents q" by simp
    with Cons.IH [of x' q'] i show ?case by simp
  qed
  have one_step: "\<exists>v'. step v e = Some v' \<and> counted v' \<and> numStudents (process v') \<le> INT_MAX
         \<and> feasible (dom (objects v')) rest
         \<and> numStudents (process v') =
             numStudents (process v) + (if is_construction e then 1 else - 1)"
    if cv: "counted v" and rv: "numStudents (process v) \<le> INT_MAX"
      and fv: "feasible (dom (objects v)) (e # rest)" for v e rest
  proof -
    from cv have fin: "finite (dom (objects v))"
      and n: "numStudents (process v) = int (card (dom (objects v)))"
      by (simp_all add: counted_def)
    from n have lo: "INT_MIN \<le> numStudents (process v)" by (simp add: INT_MIN_def)
    show ?thesis
    proof (cases e)
      case (Construct_default a)
      with fv n have fr: "objects v a = None" and up: "numStudents (process v) + 100 \<le> INT_MAX"
        and rest: "feasible (insert a (dom (objects v))) rest"
        by auto
      from fr have "a \<notin> dom (objects v)" by auto
      with fin n have "int (card (insert a (dom (objects v)))) = numStudents (process v) + 1"
        by simp
      with default_ctor [OF lo up] fr rest fin up Construct_default show ?thesis
        by (simp add: place_def counted_def)
    next
      case (Construct f l m h g k i a)
      with fv n have fr: "objects v a = None" and up: "numStudents (process v) < INT_MAX"
        and rest: "feasible (insert a (dom (objects v))) rest"
        by auto
      from fr have "a \<notin> dom (objects v)" by auto
      with fin n have "int (card (insert a (dom (objects v)))) = numStudents (process v) + 1"
        by simp
      with ctor [OF lo up] fr rest fin up Construct show ?thesis
        by (simp add: place_def counted_def)
    next
      case (Construct_copy a b)
      with fv n obtain x where fr: "objects v a = None" and live: "objects v b = Some x"
        and up: "numStudents (process v) < INT_MAX"
        and rest: "feasible (insert a (dom (objects v))) rest"
        by auto
      from fr have "a \<notin> dom (objects v)" by auto
      with fin n have "int (card (insert a (dom (objects v)))) = numStudents (process v) + 1"
        by simp
      with copy_ctor [OF lo up] fr live rest fin up Construct_copy show ?thesis
        by (simp add: place_def counted_def)
    next
      case (Destroy a)
      with fv obtain x where live: "objects v a = Some x"
        and rest: "feasible (dom (objects v) - {a}) rest"
        by auto
      from live have mem: "a \<in> dom (objects v)" by auto
      with fin have pos: "0 < card (dom (objects v))" by (auto simp: card_gt_0_iff)
      with n have "INT_MIN < numStudents (process v)" by (simp add: INT_MIN_def)
      from dtor [OF this rv] have d: "Student_dtor x (process v) =
          Some ((process v)\<lparr>numStudents := numStudents (process v) - 1\<rparr>)" .
      from fin mem pos n
      have "int (card (dom (objects v) - {a})) = numStudents (process v) - 1"
        by (simp add: card_Diff_singleton of_nat_diff)
      with d live rest fin rv Destroy show ?thesis
        by (simp add: counted_def)
    qed
  qed
  have whole_run: "\<exists>v'. run v xs = Some v' \<and> counted v'
         \<and> numStudents (process v') =
             numStudents (process v) + int (length (filter is_construction xs))
               - int (length (filter (\<lambda>e. \<not> is_construction e) xs))"
    if "counted v" and "numStudents (process v) \<le> INT_MAX"
      and "feasible (dom (objects v)) xs" for v xs
    using that
  proof (induction xs arbitrary: v)
    case Nil
    then show ?case by simp
  next
    case (Cons e xs)
    from one_step [OF Cons.prems] obtain v1
      where s: "step v e = Some v1" and c: "counted v1"
        and r: "numStudents (process v1) \<le> INT_MAX"
        and f: "feasible (dom (objects v1)) xs"
        and n: "numStudents (process v1) =
             numStudents (process v) + (if is_construction e then 1 else - 1)"
      by blast
    from Cons.IH [OF c r f] obtain v' where "run v1 xs = Some v'" and "counted v'"
      and "numStudents (process v') =
             numStudents (process v1) + int (length (filter is_construction xs))
               - int (length (filter (\<lambda>e. \<not> is_construction e) xs))"
      by blast
    with s n show ?case by simp
  qed
  have start: "counted initial_world" "numStudents (process initial_world) \<le> INT_MAX"
    "dom (objects initial_world) = {}"
    by (simp_all add: counted_def initial_world_def initial_proc_def INT_MAX_def)
  show ?thesis
  proof (intro conjI impI)
    assume "INT_MIN \<le> numStudents pA \<and> numStudents pA + 100 \<le> INT_MAX"
    then show "Student_default_ctor pA =
        Some (Student_object Person_default_ctor (FNum 0) []
                (to_string (numStudents pA + 100) @ ''Id''),
              pA\<lparr>numStudents := numStudents pA + 1\<rparr>)"
      by (simp add: default_ctor)
  next
    assume "INT_MIN \<le> numStudents pB \<and> numStudents pB < INT_MAX"
    then show "Student_ctor fname lname mi t avg course ident pB =
        Some (Student_object (Person_ctor fname lname mi t) avg course ident,
              pB\<lparr>numStudents := numStudents pB + 1\<rparr>)"
      by (simp add: ctor)
  next
    assume "INT_MIN \<le> numStudents pC \<and> numStudents pC < INT_MAX"
    then show "Student_copy_ctor src pC = Some (src, pC\<lparr>numStudents := numStudents pC + 1\<rparr>)"
      by (simp add: copy_ctor)
  next
    assume "INT_MIN < numStudents pD \<and> numStudents pD \<le> INT_MAX"
    then show "Student_dtor sD pD = Some (pD\<lparr>numStudents := numStudents pD - 1\<rparr>)"
      by (simp add: dtor)
  next
    show "numStudents (snd (snd (invoke c s p))) = numStudents p"
      by (rule call)
  next
    show "numStudents (snd (invoke_all calls s p)) = numStudents p"
      by (rule calls)
  next
    assume "feasible {} es"
    with whole_run [of initial_world es] start obtain w
      where w: "run initial_world es = Some w" and c: "counted w" by auto
    from c have "numStudents (process w) = int (card (dom (objects w)))"
      by (simp add: counted_def)
    with w show "\<exists>w. run initial_world es = Some w
           \<and> 0 \<le> numStudents (process w)
           \<and> numStudents (process w) = int (card (dom (objects w)))"
      by simp
  next
    assume a: "counted wE \<and> numStudents (process wE) \<le> INT_MAX
          \<and> feasible (dom (objects wE)) (cs @ ds) \<and> list_all is_construction cs
          \<and> list_all (\<lambda>e. \<not> is_construction e) ds \<and> length cs = length ds"
    then have f: "filter is_construction (cs @ ds) = cs"
      and g: "filter (\<lambda>e. \<not> is_construction e) (cs @ ds) = ds"
      by (auto simp: list_all_iff filter_empty_conv filter_id_conv)
    from a whole_run [of wE "cs @ ds"] obtain wE'
      where r: "run wE (cs @ ds) = Some wE'"
        and n: "numStudents (process wE') =
             numStudents (process wE) + int (length (filter is_construction (cs @ ds)))
               - int (length (filter (\<lambda>e. \<not> is_construction e) (cs @ ds)))"
      by blast
    from a n have "numStudents (process wE') = numStudents (process wE)"
      unfolding f g by simp
    with r show "\<exists>wE'. run wE (cs @ ds) = Some wE'
              \<and> numStudents (process wE') = numStudents (process wE)"
      by simp
  qed
qed

theorem population_counter_witness:
  "INT_MIN \<le> numStudents initial_proc \<and> numStudents initial_proc + 100 \<le> INT_MAX
   \<and> Student_default_ctor initial_proc =
       Some (Student_object Person_default_ctor (FNum 0) [] ''100Id'',
             initial_proc\<lparr>numStudents := 1\<rparr>)
   \<and> INT_MIN \<le> numStudents (initial_proc\<lparr>numStudents := 1\<rparr>)
   \<and> numStudents (initial_proc\<lparr>numStudents := 1\<rparr>) < INT_MAX
   \<and> Student_ctor ''Ling'' ''Mau'' CHR ''I'' ''Ms.'' float_3_1 ''C++'' ''55UD''
        (initial_proc\<lparr>numStudents := 1\<rparr>) =
       Some (Student_object (Person_ctor ''Ling'' ''Mau'' CHR ''I'' ''Ms.'') float_3_1
               ''C++'' ''55UD'',
             initial_proc\<lparr>numStudents := 2\<rparr>)
   \<and> INT_MIN \<le> numStudents (initial_proc\<lparr>numStudents := 2\<rparr>)
   \<and> numStudents (initial_proc\<lparr>numStudents := 2\<rparr>) < INT_MAX
   \<and> Student_copy_ctor
        (Student_object (Person_ctor ''Ling'' ''Mau'' CHR ''I'' ''Ms.'') float_3_1 ''C++'' ''55UD'')
        (initial_proc\<lparr>numStudents := 2\<rparr>) =
       Some (Student_object (Person_ctor ''Ling'' ''Mau'' CHR ''I'' ''Ms.'') float_3_1
               ''C++'' ''55UD'',
             initial_proc\<lparr>numStudents := 3\<rparr>)
   \<and> INT_MIN < numStudents (initial_proc\<lparr>numStudents := 3\<rparr>)
   \<and> numStudents (initial_proc\<lparr>numStudents := 3\<rparr>) \<le> INT_MAX
   \<and> Student_dtor
        (Student_object (Person_ctor ''Ling'' ''Mau'' CHR ''I'' ''Ms.'') float_3_1 ''C++'' ''55UD'')
        (initial_proc\<lparr>numStudents := 3\<rparr>) = Some (initial_proc\<lparr>numStudents := 2\<rparr>)
   \<and> numStudents (snd (snd (invoke Call_Graduate
         (Student_object (Person_ctor ''Ling'' ''Mau'' CHR ''I'' ''Ms.'') float_3_1 ''C++'' ''55UD'')
         (initial_proc\<lparr>numStudents := 1\<rparr>)))) = 1
   \<and> numStudents (snd (invoke_all [Call_EarnPhD, Call_Print, Call_Validate, Call_Graduate]
         (Student_object (Person_ctor ''Ling'' ''Mau'' CHR ''I'' ''Ms.'') float_3_1 ''C++'' ''55UD'')
         (initial_proc\<lparr>numStudents := 1\<rparr>))) = 1
   \<and> feasible {} [Construct_default 7, Construct_copy 3 7, Destroy 7]
   \<and> run initial_world [Construct_default 7, Construct_copy 3 7, Destroy 7] =
       Some \<lparr>objects = [3 \<mapsto> Student_object Person_default_ctor (FNum 0) [] ''100Id''],
             process = initial_proc\<lparr>numStudents := 1\<rparr>\<rparr>
   \<and> 0 \<le> numStudents (initial_proc\<lparr>numStudents := 1\<rparr>)
   \<and> numStudents (initial_proc\<lparr>numStudents := 1\<rparr>)
       = int (card (dom [3 \<mapsto> Student_object Person_default_ctor (FNum 0) [] ''100Id'']))
   \<and> counted initial_world
   \<and> numStudents (process initial_world) \<le> INT_MAX
   \<and> feasible (dom (objects initial_world))
        ([Construct_default 7,
          Construct ''Ling'' ''Mau'' CHR ''I'' ''Ms.'' float_3_1 ''C++'' ''55UD'' 2,
          Construct_copy 3 7]
         @ [Destroy 2, Destroy 7, Destroy 3])
   \<and> list_all is_construction
        [Construct_default 7,
         Construct ''Ling'' ''Mau'' CHR ''I'' ''Ms.'' float_3_1 ''C++'' ''55UD'' 2,
         Construct_copy 3 7]
   \<and> list_all (\<lambda>e. \<not> is_construction e) [Destroy 2, Destroy 7, Destroy 3]
   \<and> length [Construct_default 7,
         Construct ''Ling'' ''Mau'' CHR ''I'' ''Ms.'' float_3_1 ''C++'' ''55UD'' 2,
         Construct_copy 3 7] = length [Destroy 2, Destroy 7, Destroy 3]
   \<and> run initial_world
        ([Construct_default 7,
          Construct ''Ling'' ''Mau'' CHR ''I'' ''Ms.'' float_3_1 ''C++'' ''55UD'' 2,
          Construct_copy 3 7]
         @ [Destroy 2, Destroy 7, Destroy 3]) = Some initial_world"
  using population_counter
    [where pA = initial_proc
       and fname = "''Ling''" and lname = "''Mau''" and mi = "CHR ''I''" and t = "''Ms.''"
       and avg = float_3_1 and course = "''C++''" and ident = "''55UD''"
       and pB = "initial_proc\<lparr>numStudents := 1\<rparr>"
       and src = "Student_object (Person_ctor ''Ling'' ''Mau'' CHR ''I'' ''Ms.'') float_3_1
                    ''C++'' ''55UD''"
       and pC = "initial_proc\<lparr>numStudents := 2\<rparr>"
       and sD = "Student_object (Person_ctor ''Ling'' ''Mau'' CHR ''I'' ''Ms.'') float_3_1
                   ''C++'' ''55UD''"
       and pD = "initial_proc\<lparr>numStudents := 3\<rparr>"
       and c = Call_Graduate
       and s = "Student_object (Person_ctor ''Ling'' ''Mau'' CHR ''I'' ''Ms.'') float_3_1
                  ''C++'' ''55UD''"
       and p = "initial_proc\<lparr>numStudents := 1\<rparr>"
       and calls = "[Call_EarnPhD, Call_Print, Call_Validate, Call_Graduate]"
       and es = "[Construct_default 7, Construct_copy 3 7, Destroy 7]"
       and wE = initial_world
       and cs = "[Construct_default 7,
          Construct ''Ling'' ''Mau'' CHR ''I'' ''Ms.'' float_3_1 ''C++'' ''55UD'' 2,
          Construct_copy 3 7]"
       and ds = "[Destroy 2, Destroy 7, Destroy 3]"]
  by (simp add: initial_world_def initial_proc_def counted_def place_def
      Student_default_ctor_def Student_ctor_def Student_copy_ctor_def Student_dtor_def
      int_add_def INT_MAX_def INT_MIN_def Student_object_def Person_default_ctor_def
      Person_copy_ctor_def Person_ctor_def to_string_def digit_char_def
      digits10.simps [of 100] digits10.simps [of 10] digits10.simps [of "Suc 0"])

text \<open>
  C6. Whatever public member functions are called on a Student, in whatever order,
  \<open>GetStudentId\<close> returns the identifier the object had at first; calling it any
  number of times changes neither the object nor the process state. The construction
  or destruction of an object leaves the identifier of every other live object as it
  was.
\<close>

theorem studentId_immutable:
  "GetStudentId (fst (invoke_all cs s p)) = GetStudentId s
   \<and> fst (invoke Call_GetStudentId (fst (invoke_all cs s p)) (snd (invoke_all cs s p)))
       = Returned (VString (GetStudentId s))
   \<and> invoke_all (replicate n Call_GetStudentId) s p = (s, p)
   \<and> (step w e = Some w' \<and> objects w a = Some x \<and> objects w' a = Some y
        \<longrightarrow> GetStudentId y = GetStudentId x)"
proof (intro conjI impI)
  show "GetStudentId (fst (invoke_all cs s p)) = GetStudentId s"
    by (simp add: GetStudentId_def invoke_all_studentId)
  then show "fst (invoke Call_GetStudentId (fst (invoke_all cs s p)) (snd (invoke_all cs s p)))
       = Returned (VString (GetStudentId s))"
    by simp
  show "invoke_all (replicate n Call_GetStudentId) s p = (s, p)"
    by (induction n) simp_all
next
  assume "step w e = Some w' \<and> objects w a = Some x \<and> objects w' a = Some y"
  then have "y = x" by (blast dest: step_keeps_objects)
  then show "GetStudentId y = GetStudentId x" by simp
qed

theorem studentId_immutable_witness:
  "GetStudentId (fst (invoke_all
       [Call_EarnPhD, Call_SetCurrentCourse ''Ada'', Call_Graduate, Call_Validate, Call_Print]
       (Student_object (Person_ctor ''Ling'' ''Mau'' CHR ''I'' ''Ms.'') float_3_1 ''C++'' ''55UD'')
       initial_proc)) = ''55UD''
   \<and> fst (invoke Call_GetStudentId
        (fst (invoke_all
          [Call_EarnPhD, Call_SetCurrentCourse ''Ada'', Call_Graduate, Call_Validate, Call_Print]
          (Student_object (Person_ctor ''Ling'' ''Mau'' CHR ''I'' ''Ms.'') float_3_1 ''C++'' ''55UD'')
          initial_proc))
        (snd (invoke_all
          [Call_EarnPhD, Call_SetCurrentCourse ''Ada'', Call_Graduate, Call_Validate, Call_Print]
          (Student_object (Person_ctor ''Ling'' ''Mau'' CHR ''I'' ''Ms.'') float_3_1 ''C++'' ''55UD'')
          initial_proc)))
       = Returned (VString ''55UD'')
   \<and> invoke_all (replicate 3 Call_GetStudentId)
        (Student_object (Person_ctor ''Ling'' ''Mau'' CHR ''I'' ''Ms.'') float_3_1 ''C++'' ''55UD'')
        initial_proc
       = (Student_object (Person_ctor ''Ling'' ''Mau'' CHR ''I'' ''Ms.'') float_3_1 ''C++'' ''55UD'',
          initial_proc)
   \<and> step
       \<lparr>objects =
          [7 \<mapsto> Student_object (Person_ctor ''Ling'' ''Mau'' CHR ''I'' ''Ms.'') float_3_1
                 ''C++'' ''55UD''],
        process = initial_proc\<lparr>numStudents := 1\<rparr>\<rparr>
       (Construct_default 3) =
     Some \<lparr>objects =
          [7 \<mapsto> Student_object (Person_ctor ''Ling'' ''Mau'' CHR ''I'' ''Ms.'') float_3_1
                 ''C++'' ''55UD'',
           3 \<mapsto> Student_object Person_default_ctor (FNum 0) [] ''101Id''],
        process = initial_proc\<lparr>numStudents := 2\<rparr>\<rparr>
   \<and> GetStudentId
        (Student_object (Person_ctor ''Ling'' ''Mau'' CHR ''I'' ''Ms.'') float_3_1 ''C++'' ''55UD'')
       = ''55UD''"
  using studentId_immutable
    [where cs = "[Call_EarnPhD, Call_SetCurrentCourse ''Ada'', Call_Graduate, Call_Validate,
                  Call_Print]"
       and s = "Student_object (Person_ctor ''Ling'' ''Mau'' CHR ''I'' ''Ms.'') float_3_1
                  ''C++'' ''55UD''"
       and p = initial_proc and n = 3
       and w = "\<lparr>objects =
          [7 \<mapsto> Student_object (Person_ctor ''Ling'' ''Mau'' CHR ''I'' ''Ms.'') float_3_1
                 ''C++'' ''55UD''],
        process = initial_proc\<lparr>numStudents := 1\<rparr>\<rparr>"
       and e = "Construct_default 3"
       and w' = "\<lparr>objects =
          [7 \<mapsto> Student_object (Person_ctor ''Ling'' ''Mau'' CHR ''I'' ''Ms.'') float_3_1
                 ''C++'' ''55UD'',
           3 \<mapsto> Student_object Person_default_ctor (FNum 0) [] ''101Id''],
        process = initial_proc\<lparr>numStudents := 2\<rparr>\<rparr>"
       and a = 7
       and x = "Student_object (Person_ctor ''Ling'' ''Mau'' CHR ''I'' ''Ms.'') float_3_1
                  ''C++'' ''55UD''"
       and y = "Student_object (Person_ctor ''Ling'' ''Mau'' CHR ''I'' ''Ms.'') float_3_1
                  ''C++'' ''55UD''"]
  by (simp add: eval_defs GetStudentId_def)

text \<open>
  C7. With the counter in the range in which the default constructor does not
  overflow, the default constructor returns an object whose identifier is the decimal
  numeral of the counter plus 100, with the counter read before this construction
  increments it, followed by \<open>''Id''\<close>. Default constructions at different values of
  the counter give different identifiers.
\<close>

theorem default_ctor_studentId:
  "(INT_MIN \<le> numStudents p \<and> numStudents p + 100 \<le> INT_MAX \<longrightarrow>
      (\<exists>s. Student_default_ctor p = Some (s, p\<lparr>numStudents := numStudents p + 1\<rparr>)
          \<and> GetStudentId s = to_string (numStudents p + 100) @ ''Id''))
   \<and> (INT_MIN \<le> numStudents pA \<and> numStudents pA + 100 \<le> INT_MAX
        \<and> INT_MIN \<le> numStudents pB \<and> numStudents pB + 100 \<le> INT_MAX
        \<and> numStudents pA \<noteq> numStudents pB \<longrightarrow>
      (\<exists>sA sB. Student_default_ctor pA = Some (sA, pA\<lparr>numStudents := numStudents pA + 1\<rparr>)
          \<and> Student_default_ctor pB = Some (sB, pB\<lparr>numStudents := numStudents pB + 1\<rparr>)
          \<and> GetStudentId sA \<noteq> GetStudentId sB))"
proof -
  have default_ctor: "\<exists>s. Student_default_ctor q = Some (s, q\<lparr>numStudents := numStudents q + 1\<rparr>)
          \<and> GetStudentId s = to_string (numStudents q + 100) @ ''Id''"
    if "INT_MIN \<le> numStudents q" and "numStudents q + 100 \<le> INT_MAX" for q
    using that
    by (simp add: Student_default_ctor_def Let_def int_add_def GetStudentId_def
        Student_object_def)
  have digit_inj: "a = b" if "a < 10" and "b < 10" and "digit_char a = digit_char b" for a b
  proof -
    have d: "distinct ''0123456789''" by simp
    from that have "a < length ''0123456789''" and "b < length ''0123456789''" by simp_all
    from nth_eq_iff_index_eq [OF d this] that(3) show ?thesis
      by (simp add: digit_char_def)
  qed
  have digit_not_minus: "digit_char d \<noteq> CHR ''-''" if "d < 10" for d
  proof -
    from that have "digit_char d \<in> set ''0123456789''"
      unfolding digit_char_def by (intro nth_mem) simp
    then show ?thesis by auto
  qed
  have one_digit: "digits10 n = [digit_char n]" if "n < 10" for n
    using that by (subst digits10.simps) simp
  have more_digits: "digits10 n = digits10 (n div 10) @ [digit_char (n mod 10)]"
    if "\<not> n < 10" for n
    using that by (subst digits10.simps) simp
  have nonempty: "digits10 n \<noteq> []" for n
    by (subst digits10.simps) simp
  have digits_inj: "m = n" if "digits10 m = digits10 n" for m n
    using that
  proof (induction m arbitrary: n rule: digits10.induct)
    case (1 m)
    show ?case
    proof (cases "m < 10")
      case True
      show ?thesis
      proof (cases "n < 10")
        case n: True
        with True "1.prems" have "digit_char m = digit_char n" by (simp add: one_digit)
        with True n show ?thesis by (intro digit_inj)
      next
        case False
        with True "1.prems" have "digits10 (n div 10) = []"
          by (simp add: one_digit more_digits)
        with nonempty show ?thesis by simp
      qed
    next
      case False
      show ?thesis
      proof (cases "n < 10")
        case True
        with False "1.prems" have "digits10 (m div 10) = []"
          by (simp add: one_digit more_digits)
        with nonempty show ?thesis by simp
      next
        case n: False
        with False "1.prems" have q: "digits10 (m div 10) = digits10 (n div 10)"
          and r: "digit_char (m mod 10) = digit_char (n mod 10)"
          by (simp_all add: more_digits)
        from "1.IH" [OF False q] have "m div 10 = n div 10" .
        moreover from r have "m mod 10 = n mod 10" by (intro digit_inj) simp_all
        ultimately show ?thesis by (metis div_mult_mod_eq)
      qed
    qed
  qed
  have first_digit: "hd (digits10 n) \<noteq> CHR ''-''" for n
  proof (induction n rule: digits10.induct)
    case (1 n)
    show ?case
    proof (cases "n < 10")
      case True
      then show ?thesis by (simp add: one_digit digit_not_minus)
    next
      case False
      with "1.IH" [OF False] nonempty [of "n div 10"] show ?thesis
        by (simp add: more_digits)
    qed
  qed
  have minus_first: "CHR ''-'' # digits10 a \<noteq> digits10 b" for a b
    using first_digit [of b] by (metis list.sel(1))
  have to_string_inj: "i = j" if e: "to_string i = to_string j" for i j
  proof (cases "i < 0"; cases "j < 0")
    assume "i < 0" "j < 0"
    with e have "digits10 (nat (- i)) = digits10 (nat (- j))" by (simp add: to_string_def)
    then have "nat (- i) = nat (- j)" by (rule digits_inj)
    with \<open>i < 0\<close> \<open>j < 0\<close> show ?thesis by simp
  next
    assume "i < 0" "\<not> j < 0"
    with e minus_first show ?thesis by (simp add: to_string_def)
  next
    assume "\<not> i < 0" "j < 0"
    with e minus_first [symmetric] show ?thesis by (simp add: to_string_def)
  next
    assume "\<not> i < 0" "\<not> j < 0"
    with e have "digits10 (nat i) = digits10 (nat j)" by (simp add: to_string_def)
    then have "nat i = nat j" by (rule digits_inj)
    with \<open>\<not> i < 0\<close> \<open>\<not> j < 0\<close> show ?thesis by simp
  qed
  show ?thesis
  proof (intro conjI impI)
    assume "INT_MIN \<le> numStudents p \<and> numStudents p + 100 \<le> INT_MAX"
    then show "\<exists>s. Student_default_ctor p = Some (s, p\<lparr>numStudents := numStudents p + 1\<rparr>)
          \<and> GetStudentId s = to_string (numStudents p + 100) @ ''Id''"
      by (simp add: default_ctor)
  next
    assume a: "INT_MIN \<le> numStudents pA \<and> numStudents pA + 100 \<le> INT_MAX
        \<and> INT_MIN \<le> numStudents pB \<and> numStudents pB + 100 \<le> INT_MAX
        \<and> numStudents pA \<noteq> numStudents pB"
    with default_ctor [of pA] default_ctor [of pB] obtain sA sB
      where A: "Student_default_ctor pA = Some (sA, pA\<lparr>numStudents := numStudents pA + 1\<rparr>)"
        "GetStudentId sA = to_string (numStudents pA + 100) @ ''Id''"
        and B: "Student_default_ctor pB = Some (sB, pB\<lparr>numStudents := numStudents pB + 1\<rparr>)"
        "GetStudentId sB = to_string (numStudents pB + 100) @ ''Id''"
      by blast
    have "GetStudentId sA \<noteq> GetStudentId sB"
    proof
      assume "GetStudentId sA = GetStudentId sB"
      with A(2) B(2) have "to_string (numStudents pA + 100) = to_string (numStudents pB + 100)"
        by simp
      then have "numStudents pA + 100 = numStudents pB + 100" by (rule to_string_inj)
      with a show False by simp
    qed
    with A(1) B(1) show "\<exists>sA sB.
          Student_default_ctor pA = Some (sA, pA\<lparr>numStudents := numStudents pA + 1\<rparr>)
          \<and> Student_default_ctor pB = Some (sB, pB\<lparr>numStudents := numStudents pB + 1\<rparr>)
          \<and> GetStudentId sA \<noteq> GetStudentId sB"
      by blast
  qed
qed

theorem default_ctor_studentId_witness:
  "INT_MIN \<le> numStudents initial_proc \<and> numStudents initial_proc + 100 \<le> INT_MAX
   \<and> Student_default_ctor initial_proc =
       Some (Student_object Person_default_ctor (FNum 0) [] ''100Id'',
             initial_proc\<lparr>numStudents := 1\<rparr>)
   \<and> GetStudentId (Student_object Person_default_ctor (FNum 0) [] ''100Id'')
       = to_string (numStudents initial_proc + 100) @ ''Id''
   \<and> INT_MIN \<le> numStudents (initial_proc\<lparr>numStudents := 1\<rparr>)
   \<and> numStudents (initial_proc\<lparr>numStudents := 1\<rparr>) + 100 \<le> INT_MAX
   \<and> numStudents initial_proc \<noteq> numStudents (initial_proc\<lparr>numStudents := 1\<rparr>)
   \<and> Student_default_ctor (initial_proc\<lparr>numStudents := 1\<rparr>) =
       Some (Student_object Person_default_ctor (FNum 0) [] ''101Id'',
             initial_proc\<lparr>numStudents := 2\<rparr>)
   \<and> GetStudentId (Student_object Person_default_ctor (FNum 0) [] ''100Id'')
       \<noteq> GetStudentId (Student_object Person_default_ctor (FNum 0) [] ''101Id'')"
  using default_ctor_studentId
    [where p = initial_proc and pA = initial_proc
       and pB = "initial_proc\<lparr>numStudents := 1\<rparr>"]
  by (simp add: initial_proc_def Student_default_ctor_def int_add_def INT_MAX_def INT_MIN_def
      Student_object_def Person_default_ctor_def GetStudentId_def to_string_def digit_char_def
      digits10.simps [of 100] digits10.simps [of 101] digits10.simps [of 10]
      digits10.simps [of "Suc 0"])

subsection \<open>TakePrerequisites, the copy constructor and Validate\<close>

text \<open>
  C8. For every Student and every process state, \<open>TakePrerequisites\<close> returns
  \<^verbatim>\<open>false\<close>, throws nothing, and leaves the Student and the process state (the
  counter, the output, the heap, the terminate function) as they were.
\<close>

theorem TakePrerequisites_false:
  "TakePrerequisites s p = (Returned False, s, p)"
  by (simp add: TakePrerequisites_def)

theorem TakePrerequisites_false_witness:
  "TakePrerequisites
     (Student_object (Person_ctor ''Ling'' ''Mau'' CHR ''I'' ''Ms.'') float_3_1 ''C++'' ''55UD'')
     (initial_proc\<lparr>numStudents := 1\<rparr>)
   = (Returned False,
      Student_object (Person_ctor ''Ling'' ''Mau'' CHR ''I'' ''Ms.'') float_3_1 ''C++'' ''55UD'',
      initial_proc\<lparr>numStudents := 1\<rparr>)"
  using TakePrerequisites_false
    [of "Student_object (Person_ctor ''Ling'' ''Mau'' CHR ''I'' ''Ms.'') float_3_1 ''C++'' ''55UD''"
        "initial_proc\<lparr>numStudents := 1\<rparr>"]
  by simp

text \<open>
  C9. With the counter in range below \<open>INT_MAX\<close>, the copy constructor returns an
  object that has the identifier of its source, and adds one to the counter. A copy
  of a live object into free storage is a step that is defined, and after it the
  source and the copy are two live objects, at different addresses, with the same
  identifier.
\<close>

theorem copy_ctor_copies_studentId:
  "(INT_MIN \<le> numStudents p \<and> numStudents p < INT_MAX \<longrightarrow>
      (\<exists>c. Student_copy_ctor s p = Some (c, p\<lparr>numStudents := numStudents p + 1\<rparr>)
          \<and> GetStudentId c = GetStudentId s))
   \<and> (objects w src = Some x \<and> objects w a = None
        \<and> INT_MIN \<le> numStudents (process w) \<and> numStudents (process w) < INT_MAX \<longrightarrow>
      (\<exists>w' y. step w (Construct_copy a src) = Some w'
          \<and> a \<noteq> src
          \<and> objects w' src = Some x \<and> objects w' a = Some y
          \<and> GetStudentId y = GetStudentId x
          \<and> numStudents (process w') = numStudents (process w) + 1))"
proof -
  have copy_ctor: "Student_copy_ctor x q = Some (x, q\<lparr>numStudents := numStudents q + 1\<rparr>)"
    if "INT_MIN \<le> numStudents q" and "numStudents q < INT_MAX" for x q
    using that
    by (simp add: Student_copy_ctor_def Let_def int_add_def Student_object_def
        Person_copy_ctor_def)
  show ?thesis
  proof (intro conjI impI)
    assume "INT_MIN \<le> numStudents p \<and> numStudents p < INT_MAX"
    then show "\<exists>c. Student_copy_ctor s p = Some (c, p\<lparr>numStudents := numStudents p + 1\<rparr>)
          \<and> GetStudentId c = GetStudentId s"
      by (simp add: copy_ctor)
  next
    assume a: "objects w src = Some x \<and> objects w a = None
        \<and> INT_MIN \<le> numStudents (process w) \<and> numStudents (process w) < INT_MAX"
    then have ne: "a \<noteq> src" by auto
    from a have "Student_copy_ctor x (process w) =
        Some (x, (process w)\<lparr>numStudents := numStudents (process w) + 1\<rparr>)"
      by (simp add: copy_ctor)
    with a have "step w (Construct_copy a src) =
        Some \<lparr>objects = (objects w)(a \<mapsto> x),
              process = (process w)\<lparr>numStudents := numStudents (process w) + 1\<rparr>\<rparr>"
      by (simp add: place_def)
    with a ne show "\<exists>w' y. step w (Construct_copy a src) = Some w'
          \<and> a \<noteq> src
          \<and> objects w' src = Some x \<and> objects w' a = Some y
          \<and> GetStudentId y = GetStudentId x
          \<and> numStudents (process w') = numStudents (process w) + 1"
      by simp
  qed
qed

theorem copy_ctor_copies_studentId_witness:
  "INT_MIN \<le> numStudents (initial_proc\<lparr>numStudents := 1\<rparr>)
   \<and> numStudents (initial_proc\<lparr>numStudents := 1\<rparr>) < INT_MAX
   \<and> Student_copy_ctor
        (Student_object (Person_ctor ''Ling'' ''Mau'' CHR ''I'' ''Ms.'') float_3_1 ''C++'' ''55UD'')
        (initial_proc\<lparr>numStudents := 1\<rparr>) =
       Some (Student_object (Person_ctor ''Ling'' ''Mau'' CHR ''I'' ''Ms.'') float_3_1
               ''C++'' ''55UD'',
             initial_proc\<lparr>numStudents := 2\<rparr>)
   \<and> objects
        \<lparr>objects =
           [7 \<mapsto> Student_object (Person_ctor ''Ling'' ''Mau'' CHR ''I'' ''Ms.'') float_3_1
                  ''C++'' ''55UD''],
         process = initial_proc\<lparr>numStudents := 1\<rparr>\<rparr> 7
       = Some (Student_object (Person_ctor ''Ling'' ''Mau'' CHR ''I'' ''Ms.'') float_3_1
                 ''C++'' ''55UD'')
   \<and> objects
        \<lparr>objects =
           [7 \<mapsto> Student_object (Person_ctor ''Ling'' ''Mau'' CHR ''I'' ''Ms.'') float_3_1
                  ''C++'' ''55UD''],
         process = initial_proc\<lparr>numStudents := 1\<rparr>\<rparr> 3 = None
   \<and> step
        \<lparr>objects =
           [7 \<mapsto> Student_object (Person_ctor ''Ling'' ''Mau'' CHR ''I'' ''Ms.'') float_3_1
                  ''C++'' ''55UD''],
         process = initial_proc\<lparr>numStudents := 1\<rparr>\<rparr>
        (Construct_copy 3 7) =
       Some \<lparr>objects =
           [7 \<mapsto> Student_object (Person_ctor ''Ling'' ''Mau'' CHR ''I'' ''Ms.'') float_3_1
                  ''C++'' ''55UD'',
            3 \<mapsto> Student_object (Person_ctor ''Ling'' ''Mau'' CHR ''I'' ''Ms.'') float_3_1
                  ''C++'' ''55UD''],
         process = initial_proc\<lparr>numStudents := 2\<rparr>\<rparr>
   \<and> (3::nat) \<noteq> 7
   \<and> GetStudentId (Student_object (Person_ctor ''Ling'' ''Mau'' CHR ''I'' ''Ms.'') float_3_1
                      ''C++'' ''55UD'') = ''55UD''"
  using copy_ctor_copies_studentId
    [where s = "Student_object (Person_ctor ''Ling'' ''Mau'' CHR ''I'' ''Ms.'') float_3_1
                  ''C++'' ''55UD''"
       and p = "initial_proc\<lparr>numStudents := 1\<rparr>"
       and w = "\<lparr>objects =
           [7 \<mapsto> Student_object (Person_ctor ''Ling'' ''Mau'' CHR ''I'' ''Ms.'') float_3_1
                  ''C++'' ''55UD''],
         process = initial_proc\<lparr>numStudents := 1\<rparr>\<rparr>"
       and src = 7 and a = 3
       and x = "Student_object (Person_ctor ''Ling'' ''Mau'' CHR ''I'' ''Ms.'') float_3_1
                  ''C++'' ''55UD''"]
  by (simp add: initial_proc_def place_def Student_copy_ctor_def int_add_def INT_MAX_def
      INT_MIN_def Student_object_def Person_copy_ctor_def Person_ctor_def GetStudentId_def)

text \<open>
  C10. For every Student and every process state, \<open>Validate\<close> throws the
  \<^verbatim>\<open>const char *\<close> message \<open>''Student does not meet prerequisites''\<close> and changes
  nothing; it never returns normally. No other public member function throws a
  \<^verbatim>\<open>const char *\<close>. (The constructors and the destructor have no \<^verbatim>\<open>throw\<close>.)
\<close>

theorem Validate_throws:
  "Validate s p = (Thrown (ExCString ''Student does not meet prerequisites''), s, p)
   \<and> (fst (invoke c s' p') = Thrown (ExCString m) \<longrightarrow> c = Call_Validate)"
proof (intro conjI impI)
  show "Validate s p = (Thrown (ExCString ''Student does not meet prerequisites''), s, p)"
    by (simp add: Validate_def)
next
  assume "fst (invoke c s' p') = Thrown (ExCString m)"
  then show "c = Call_Validate"
    by (cases c) (simp_all add: TakePrerequisites_def Graduate_def Let_def split: if_splits)
qed

theorem Validate_throws_witness:
  "Validate (Student_object (Person_ctor ''Ling'' ''Mau'' CHR ''I'' ''Ms.'') float_3_1 ''C++'' ''55UD'')
     initial_proc
   = (Thrown (ExCString ''Student does not meet prerequisites''),
      Student_object (Person_ctor ''Ling'' ''Mau'' CHR ''I'' ''Ms.'') float_3_1 ''C++'' ''55UD'',
      initial_proc)
   \<and> fst (invoke Call_Validate
       (Student_object (Person_ctor ''Ling'' ''Mau'' CHR ''I'' ''Ms.'') float_3_1 ''C++'' ''55UD'')
       initial_proc)
     = Thrown (ExCString ''Student does not meet prerequisites'')
   \<and> Call_Validate = Call_Validate"
  using Validate_throws
    [where s = "Student_object (Person_ctor ''Ling'' ''Mau'' CHR ''I'' ''Ms.'') float_3_1 ''C++'' ''55UD''"
       and p = initial_proc and c = Call_Validate
       and s' = "Student_object (Person_ctor ''Ling'' ''Mau'' CHR ''I'' ''Ms.'') float_3_1 ''C++'' ''55UD''"
       and p' = initial_proc and m = "''Student does not meet prerequisites''"]
  by (simp add: Validate_def)

end
